theory Spec2Isabelle
  imports Main
begin

section \<open>Python values and exceptions\<close>

text \<open>
  A Python \<open>str\<close> is a sequence of code points, and so is \<open>pystr\<close>: a list of numbers,
  where the numbers from \<open>0xD800\<close> to \<open>0xDFFF\<close> are the surrogates, which a \<open>str\<close> may
  hold on their own (\<open>json.loads\<close> reads the escape \<^verbatim>\<open>\ud800\<close> as one). \<open>cps\<close> gives
  the code points of a literal.
\<close>

type_synonym pystr = "nat list"

definition cps :: "string \<Rightarrow> pystr" where
  "cps s = map of_char s"

text \<open>
  The value \<open>request.get_json()\<close> hands to the handler is whatever \<open>json.loads\<close> built:
  \<open>None\<close>, a bool, a number, a \<open>str\<close>, a \<open>list\<close> or a \<open>dict\<close>. A dict is kept as an
  association list with distinct keys, looked up with \<open>map_of\<close>. Numbers are integers;
  a float behaves the same way in this handler (zero is falsy, \<open>in\<close> raises
  \<open>TypeError\<close>).
\<close>

datatype json =
    JNull
  | JBool bool
  | JNum int
  | JStr pystr
  | JArr "json list"
  | JObj "(pystr \<times> json) list"

text \<open>
  The exception classes the handlers tell apart. \<open>HTTPError\<close> is a subclass of
  \<open>requests.exceptions.RequestException\<close>; all of them are subclasses of \<open>Exception\<close>.
\<close>

datatype exn =
    RequestException
  | HTTPError
  | BadRequest
  | TypeError
  | KeyError
  | UnicodeEncodeError
  | OtherException

fun is_RequestException :: "exn \<Rightarrow> bool" where
  "is_RequestException RequestException = True"
| "is_RequestException HTTPError = True"
| "is_RequestException _ = False"

section \<open>String operations of Python\<close>

text \<open>\<open>str.isspace\<close> on one code point: the whitespace of Unicode.\<close>

definition isspace :: "nat \<Rightarrow> bool" where
  "isspace c =
     ((9 \<le> c \<and> c \<le> 13) \<or> (28 \<le> c \<and> c \<le> 32) \<or> c = 133 \<or> c = 160 \<or> c = 5760 \<or>
      (8192 \<le> c \<and> c \<le> 8202) \<or> c = 8232 \<or> c = 8233 \<or> c = 8239 \<or> c = 8287 \<or>
      c = 12288)"

text \<open>
  \<open>s.split()\<close> with no argument: the maximal runs of non-whitespace characters, in order.
  \<open>split_ws cur s\<close> scans \<open>s\<close> with the token read so far in \<open>cur\<close>.
\<close>

fun split_ws :: "pystr \<Rightarrow> pystr \<Rightarrow> pystr list" where
  "split_ws cur [] = (if cur = [] then [] else [cur])"
| "split_ws cur (c # cs) =
     (if isspace c then (if cur = [] then split_ws [] cs else cur # split_ws [] cs)
      else split_ws (cur @ [c]) cs)"

definition py_split :: "pystr \<Rightarrow> pystr list" where
  "py_split s = split_ws [] s"

text \<open>\<open>sep.join(xs)\<close>.\<close>

fun py_join :: "pystr \<Rightarrow> pystr list \<Rightarrow> pystr" where
  "py_join sep [] = []"
| "py_join sep [x] = x"
| "py_join sep (x # y # ys) = x @ sep @ py_join sep (y # ys)"

text \<open>\<open>s.strip()\<close> with no argument.\<close>

definition py_strip :: "pystr \<Rightarrow> pystr" where
  "py_strip s = rev (dropWhile isspace (rev (dropWhile isspace s)))"

text \<open>\<open>sub in s\<close> on strings.\<close>

fun is_prefix :: "pystr \<Rightarrow> pystr \<Rightarrow> bool" where
  "is_prefix [] s = True"
| "is_prefix (a # as) [] = False"
| "is_prefix (a # as) (c # cs) = (a = c \<and> is_prefix as cs)"

fun is_substring :: "pystr \<Rightarrow> pystr \<Rightarrow> bool" where
  "is_substring sub [] = (sub = [])"
| "is_substring sub (c # cs) = (is_prefix sub (c # cs) \<or> is_substring sub cs)"

section \<open>Writing to the log\<close>

text \<open>
  \<open>print(f"... {url} ...")\<close> writes \<open>str(url)\<close> to standard output, which encodes it as
  UTF-8. A \<open>str\<close> holding a surrogate cannot be encoded, and \<open>print\<close> raises
  \<open>UnicodeEncodeError\<close>. For every other value \<open>str(url)\<close> is its \<open>repr\<close>, which writes
  such code points as escapes. The fixed texts, the numbers and the messages of the
  exceptions that the program prints are taken to be writable.
\<close>

definition is_surrogate :: "nat \<Rightarrow> bool" where
  "is_surrogate c = (55296 \<le> c \<and> c \<le> 57343)"

fun printable :: "json \<Rightarrow> bool" where
  "printable (JStr s) = (\<not> list_ex is_surrogate s)"
| "printable _ = True"

definition print_value :: "json \<Rightarrow> exn + unit" where
  "print_value v = (if printable v then Inr () else Inl UnicodeEncodeError)"

section \<open>The parsed document\<close>

text \<open>
  The tree \<open>BeautifulSoup(content, 'html.parser')\<close> builds, given as the children of the
  root object: elements (\<open>Tag\<close>) with their name and children, and the string nodes by
  their class. Text is a \<open>NavigableString\<close>, a CDATA section a \<open>CData\<close>; the text inside
  \<open>script\<close>, \<open>style\<close>, \<open>template\<close>, \<open>rt\<close> and \<open>rp\<close> elements is a \<open>Script\<close>, a
  \<open>Stylesheet\<close>, a \<open>TemplateString\<close>, a \<open>RubyTextString\<close> and a
  \<open>RubyParenthesisString\<close>. \<open>Comment\<close> stands for a comment and for the other nodes
  that are not text (a declaration, a doctype, a processing instruction).
\<close>

datatype node =
    NavigableString pystr
  | CData pystr
  | Comment pystr
  | Script pystr
  | Stylesheet pystr
  | TemplateString pystr
  | RubyTextString pystr
  | RubyParenthesisString pystr
  | Tag pystr "node list"

text \<open>\<open>tag.descendants\<close>: every node below a node, in document order.\<close>

fun descendants :: "node \<Rightarrow> node list" where
  "descendants (Tag name cs) = concat (map (\<lambda>c. c # descendants c) cs)"
| "descendants _ = []"

definition soup_descendants :: "node list \<Rightarrow> node list" where
  "soup_descendants soup = concat (map (\<lambda>c. c # descendants c) soup)"

fun has_name :: "pystr \<Rightarrow> node \<Rightarrow> bool" where
  "has_name name (Tag n cs) = (n = name)"
| "has_name name _ = False"

text \<open>\<open>soup.find_all(name)\<close>: the elements of that name, in document order.\<close>

definition find_all :: "pystr \<Rightarrow> node list \<Rightarrow> node list" where
  "find_all name soup = filter (has_name name) (soup_descendants soup)"

text \<open>
  \<open>p.get_text(strip=True)\<close>: of the nodes below \<open>p\<close>, those of class \<open>NavigableString\<close> or
  \<open>CData\<close> are taken (a node of any other class is not);
  each is stripped on its own, the empty results are dropped, and the rest are joined
  with the default separator, the empty string.
\<close>

fun navigable_strings :: "node list \<Rightarrow> pystr list" where
  "navigable_strings [] = []"
| "navigable_strings (NavigableString s # ns) = s # navigable_strings ns"
| "navigable_strings (CData s # ns) = s # navigable_strings ns"
| "navigable_strings (n # ns) = navigable_strings ns"

definition all_strings_strip :: "node \<Rightarrow> pystr list" where
  "all_strings_strip p =
     filter (\<lambda>s. s \<noteq> []) (map py_strip (navigable_strings (descendants p)))"

definition get_text_strip :: "node \<Rightarrow> pystr" where
  "get_text_strip p = py_join [] (all_strings_strip p)"

section \<open>The libraries the program calls\<close>

text \<open>A response: its status, and its body as bytes.\<close>

record response =
  status_code :: nat
  content :: string

text \<open>
  What the outside answers: \<open>requests.get(url, headers, timeout=10)\<close> (an exception, or
  a response), \<open>BeautifulSoup(content, 'html.parser')\<close> (an exception, or the tree), and
  \<open>genai.GenerativeModel(name).generate_content(prompt).text\<close> (an exception, or the
  generated text). The handler passes \<open>data["url"]\<close> on as it is, so \<open>requests_get\<close>
  answers for any value.
\<close>

record world =
  requests_get :: "json \<Rightarrow> exn + response"
  html_parser :: "string \<Rightarrow> exn + node list"
  generate_content :: "pystr \<Rightarrow> pystr \<Rightarrow> exn + pystr"

text \<open>\<open>response.raise_for_status()\<close> raises \<open>HTTPError\<close> on a 4xx or 5xx status.\<close>

definition raise_for_status :: "response \<Rightarrow> exn + unit" where
  "raise_for_status r =
     (if 400 \<le> status_code r \<and> status_code r < 600 then Inl HTTPError else Inr ())"

section \<open>scrape_article_text\<close>

definition max_words :: nat where
  "max_words = 1500"

text \<open>The body of the \<open>try\<close> block.\<close>

definition scrape_try :: "world \<Rightarrow> json \<Rightarrow> exn + pystr" where
  "scrape_try w url =
     (case requests_get w url of
        Inl e \<Rightarrow> Inl e
      | Inr response \<Rightarrow>
          (case raise_for_status response of
             Inl e \<Rightarrow> Inl e
           | Inr u \<Rightarrow>
               (case html_parser w (content response) of
                  Inl e \<Rightarrow> Inl e
                | Inr soup \<Rightarrow>
                    (let paragraphs = find_all (cps ''p'') soup;
                         text = py_join (cps '' '') (map get_text_strip paragraphs)
                     in Inr (py_join (cps '' '') (take max_words (py_split text)))))))"

text \<open>
  The two \<open>except\<close> clauses, in the source's order. Each prints the URL and the
  exception and then returns the empty string; an exception raised by that \<open>print\<close>
  leaves the function.
\<close>

definition scrape_article_text :: "world \<Rightarrow> json \<Rightarrow> exn + pystr" where
  "scrape_article_text w url =
     (case scrape_try w url of
        Inr s \<Rightarrow> Inr s
      | Inl e \<Rightarrow>
          (if is_RequestException e
           then (case print_value url of Inl e' \<Rightarrow> Inl e' | Inr u \<Rightarrow> Inr [])
           else (case print_value url of Inl e' \<Rightarrow> Inl e' | Inr u \<Rightarrow> Inr [])))"

section \<open>The endpoint\<close>

text \<open>Truthiness of a value (\<open>not data\<close>).\<close>

fun truthy :: "json \<Rightarrow> bool" where
  "truthy JNull = False"
| "truthy (JBool b) = b"
| "truthy (JNum n) = (n \<noteq> 0)"
| "truthy (JStr s) = (s \<noteq> [])"
| "truthy (JArr xs) = (xs \<noteq> [])"
| "truthy (JObj kvs) = (kvs \<noteq> [])"

text \<open>\<open>key in data\<close> for a string key: defined on containers, \<open>TypeError\<close> otherwise.\<close>

fun py_contains :: "json \<Rightarrow> pystr \<Rightarrow> exn + bool" where
  "py_contains (JObj kvs) key = Inr (map_of kvs key \<noteq> None)"
| "py_contains (JArr xs) key = Inr (List.member xs (JStr key))"
| "py_contains (JStr s) key = Inr (is_substring key s)"
| "py_contains _ key = Inl TypeError"

text \<open>\<open>data[key]\<close> for a string key.\<close>

fun py_getitem :: "json \<Rightarrow> pystr \<Rightarrow> exn + json" where
  "py_getitem (JObj kvs) key =
     (case map_of kvs key of None \<Rightarrow> Inl KeyError | Some v \<Rightarrow> Inr v)"
| "py_getitem _ key = Inl TypeError"

type_synonym http_response = "json \<times> nat"

definition no_url_error :: json where
  "no_url_error = JObj [(cps ''error'', JStr (cps ''No URL provided''))]"

definition scrape_error :: json where
  "scrape_error = JObj [(cps ''error'', JStr (cps ''Could not scrape text from URL''))]"

definition config_error :: json where
  "config_error = JObj [(cps ''error'', JStr (cps ''AI API key not configured on server''))]"

definition internal_error :: json where
  "internal_error = JObj [(cps ''error'', JStr (cps ''An internal server error occurred''))]"

definition model_name_to_use :: pystr where
  "model_name_to_use = cps ''models/gemini-pro-latest''"

definition prompt_for :: "pystr \<Rightarrow> pystr" where
  "prompt_for article_text =
     cps ''Summarize the following article text in 3 concise bullet points:''
       @ [10, 10] @ article_text"

text \<open>\<open>not gemini_api_key\<close>: the variable is unset, or set to the empty string.\<close>

fun key_missing :: "pystr option \<Rightarrow> bool" where
  "key_missing None = True"
| "key_missing (Some k) = (k = [])"

text \<open>
  The body of the handler's \<open>try\<close> block. The first component is the list of calls made
  to the model (model name and prompt); the second is the exception raised, or the
  response returned. The argument \<open>req\<close> is what \<open>request.get_json()\<close> does: it raises
  (\<open>Inl\<close>) on a body it cannot parse, or returns the parsed value. The two \<open>print\<close>
  calls that write the URL are steps of their own: the one that logs the request
  before the scrape, and the one that logs a failed scrape.
\<close>

definition summarize_try ::
  "pystr option \<Rightarrow> world \<Rightarrow> exn + json \<Rightarrow> (pystr \<times> pystr) list \<times> (exn + http_response)" where
  "summarize_try gemini_api_key w req =
     (case req of
        Inl e \<Rightarrow> ([], Inl e)
      | Inr data \<Rightarrow>
          if \<not> truthy data then ([], Inr (no_url_error, 400))
          else
            (case py_contains data (cps ''url'') of
               Inl e \<Rightarrow> ([], Inl e)
             | Inr has_url \<Rightarrow>
                 if \<not> has_url then ([], Inr (no_url_error, 400))
                 else
                   (case py_getitem data (cps ''url'') of
                      Inl e \<Rightarrow> ([], Inl e)
                    | Inr url_to_scrape \<Rightarrow>
                        (case print_value url_to_scrape of
                           Inl e \<Rightarrow> ([], Inl e)
                         | Inr u \<Rightarrow>
                        (case scrape_article_text w url_to_scrape of
                           Inl e \<Rightarrow> ([], Inl e)
                         | Inr article_text \<Rightarrow>
                             if article_text = [] then
                               (case print_value url_to_scrape of
                                  Inl e \<Rightarrow> ([], Inl e)
                                | Inr u \<Rightarrow> ([], Inr (scrape_error, 400)))
                             else if key_missing gemini_api_key
                               then ([], Inr (config_error, 500))
                             else
                               (let prompt = prompt_for article_text in
                                  (case generate_content w model_name_to_use prompt of
                                     Inl e \<Rightarrow> ([(model_name_to_use, prompt)], Inl e)
                                   | Inr text \<Rightarrow>
                                       ([(model_name_to_use, prompt)],
                                        Inr (JObj [(cps ''summary'', JStr text)], 200)))))))))"

text \<open>
  The \<open>except Exception\<close> clause prints the exception and turns it into the generic
  500.
\<close>

definition summarize ::
  "pystr option \<Rightarrow> world \<Rightarrow> exn + json \<Rightarrow> (pystr \<times> pystr) list \<times> http_response" where
  "summarize gemini_api_key w req =
     (case summarize_try gemini_api_key w req of
        (calls, Inl e) \<Rightarrow> (calls, (internal_error, 500))
      | (calls, Inr r) \<Rightarrow> (calls, r))"

section \<open>The extraction as the specification words it\<close>

text \<open>
  Following the specification's words: the text content of an element is the text of all
  the text nodes below it, as it stands in the document (comments are not text).
\<close>

fun text_nodes :: "node list \<Rightarrow> pystr list" where
  "text_nodes [] = []"
| "text_nodes (Comment s # ns) = text_nodes ns"
| "text_nodes (Tag name cs # ns) = text_nodes ns"
| "text_nodes (NavigableString s # ns) = s # text_nodes ns"
| "text_nodes (CData s # ns) = s # text_nodes ns"
| "text_nodes (Script s # ns) = s # text_nodes ns"
| "text_nodes (Stylesheet s # ns) = s # text_nodes ns"
| "text_nodes (TemplateString s # ns) = s # text_nodes ns"
| "text_nodes (RubyTextString s # ns) = s # text_nodes ns"
| "text_nodes (RubyParenthesisString s # ns) = s # text_nodes ns"

definition text_content :: "node \<Rightarrow> pystr" where
  "text_content p = concat (text_nodes (descendants p))"

text \<open>
  Following the specification's words: the text content of every \<open>p\<close> element, in
  document order, joined by single spaces and whitespace-normalised (its
  whitespace-delimited tokens joined by single spaces), cut to the first 1500 tokens
  when there are more.
\<close>

definition spec_extracted_text :: "node list \<Rightarrow> pystr" where
  "spec_extracted_text soup =
     (let text = py_join (cps '' '') (map text_content (find_all (cps ''p'') soup));
          tokens = py_split text
      in if length tokens \<le> 1500 then py_join (cps '' '') tokens
         else py_join (cps '' '') (take 1500 tokens))"


text \<open>A whitespace-delimited token: not empty, and free of whitespace.\<close>

definition is_token :: "pystr \<Rightarrow> bool" where
  "is_token t = (t \<noteq> [] \<and> list_all (\<lambda>c. \<not> isspace c) t)"

section \<open>Example runs\<close>

text \<open>
  The end-to-end scenario of the specification: the page
  \<^verbatim>\<open><html><body><p>Hello world.</p><p>Second paragraph.</p></body></html>\<close>
  answered with status 200, and a model that returns a fixed text.
\<close>

definition example_soup :: "node list" where
  "example_soup =
     [Tag (cps ''html'') [Tag (cps ''body'')
        [Tag (cps ''p'') [NavigableString (cps ''Hello world.'')],
         Tag (cps ''p'') [NavigableString (cps ''Second paragraph.'')]]]]"

definition example_world :: world where
  "example_world =
     \<lparr> requests_get = (\<lambda>url. Inr \<lparr> status_code = 200, content = ''page'' \<rparr>),
       html_parser = (\<lambda>c. Inr example_soup),
       generate_content = (\<lambda>name prompt. Inr (cps ''* a summary'')) \<rparr>"

definition example_url :: json where
  "example_url = JStr (cps ''http://example.com/article'')"

definition example_request :: "exn + json" where
  "example_request = Inr (JObj [(cps ''url'', example_url)])"

text \<open>The same, with every fetch failing at the transport level.\<close>

definition offline_world :: world where
  "offline_world = example_world \<lparr> requests_get := (\<lambda>url. Inl RequestException) \<rparr>"

text \<open>The same, with the server answering 404.\<close>

definition not_found_world :: world where
  "not_found_world =
     example_world
       \<lparr> requests_get := (\<lambda>url. Inr \<lparr> status_code = 404, content = ''page'' \<rparr>) \<rparr>"

text \<open>The page \<^verbatim>\<open><p>Hello <b>world</b></p>\<close>.\<close>

definition inline_soup :: "node list" where
  "inline_soup =
     [Tag (cps ''p'')
        [NavigableString (cps ''Hello ''), Tag (cps ''b'') [NavigableString (cps ''world'')]]]"

definition inline_world :: world where
  "inline_world = example_world \<lparr> html_parser := (\<lambda>c. Inr inline_soup) \<rparr>"

text \<open>The page \<^verbatim>\<open><html><body><div>Hello world.</div></body></html>\<close>.\<close>

definition no_paragraph_soup :: "node list" where
  "no_paragraph_soup =
     [Tag (cps ''html'') [Tag (cps ''body'')
        [Tag (cps ''div'') [NavigableString (cps ''Hello world.'')]]]]"

definition no_paragraph_world :: world where
  "no_paragraph_world = example_world \<lparr> html_parser := (\<lambda>c. Inr no_paragraph_soup) \<rparr>"

text \<open>A parser that gives up on the page.\<close>

definition unparsable_world :: world where
  "unparsable_world = example_world \<lparr> html_parser := (\<lambda>c. Inl OtherException) \<rparr>"

text \<open>
  The request \<^verbatim>\<open>{"url": "\ud800"}\<close>: the URL is the one-character string holding
  the surrogate \<open>U+D800\<close>. It names no scheme, and \<open>requests.get\<close> raises on it.
\<close>

definition surrogate_url :: json where
  "surrogate_url = JStr [55296]"

definition surrogate_request :: "exn + json" where
  "surrogate_request = Inr (JObj [(cps ''url'', surrogate_url)])"

section \<open>Facts about the string operations\<close>

lemmas run_defs = scrape_article_text_def scrape_try_def raise_for_status_def find_all_def
  soup_descendants_def get_text_strip_def all_strings_strip_def py_strip_def py_split_def
  isspace_def max_words_def summarize_def summarize_try_def prompt_for_def
  model_name_to_use_def no_url_error_def scrape_error_def config_error_def
  internal_error_def text_content_def spec_extracted_text_def print_value_def
  is_surrogate_def cps_def

lemmas example_defs = example_world_def example_soup_def example_url_def
  example_request_def offline_world_def not_found_world_def inline_soup_def
  inline_world_def no_paragraph_soup_def no_paragraph_world_def unparsable_world_def
  surrogate_url_def surrogate_request_def

lemma cps_space: "cps '' '' = [32]"
  by (simp add: cps_def)

lemma isspace_space: "isspace 32"
  by (simp add: isspace_def)

lemma py_split_Nil: "py_split [] = []"
  by (simp add: py_split_def)

text \<open>Characters that are not whitespace only extend the token being read.\<close>

lemma split_ws_nonspace:
  "list_all (\<lambda>c. \<not> isspace c) t \<Longrightarrow> split_ws cur (t @ rest) = split_ws (cur @ t) rest"
  by (induction t arbitrary: cur) simp_all

text \<open>Everything \<open>split\<close> returns is a token.\<close>

lemma split_ws_tokens:
  "list_all (\<lambda>c. \<not> isspace c) cur \<Longrightarrow> list_all is_token (split_ws cur s)"
  by (induction cur s rule: split_ws.induct) (auto simp: is_token_def)

lemma py_split_tokens: "list_all is_token (py_split s)"
  by (simp add: py_split_def split_ws_tokens)

text \<open>Splitting what was joined by single spaces gives the tokens back.\<close>

lemma split_ws_join:
  "list_all is_token ts \<Longrightarrow> split_ws [] (py_join [32] ts) = ts"
proof (induction "[32::nat]" ts rule: py_join.induct)
  case 1
  then show ?case by simp
next
  case (2 x)
  then have "split_ws [] (x @ []) = split_ws ([] @ x) []"
    by (intro split_ws_nonspace) (simp add: is_token_def)
  with 2 show ?case by (simp add: is_token_def)
next
  case (3 x y ys)
  then have "split_ws [] (x @ ([32] @ py_join [32] (y # ys)))
      = split_ws ([] @ x) ([32] @ py_join [32] (y # ys))"
    by (intro split_ws_nonspace) (simp add: is_token_def)
  with 3 show ?case by (simp add: is_token_def isspace_space)
qed

lemma py_split_join: "list_all is_token ts \<Longrightarrow> py_split (py_join (cps '' '') ts) = ts"
  by (simp add: py_split_def split_ws_join cps_space)

lemma list_all_take: "list_all P xs \<Longrightarrow> list_all P (take n xs)"
  by (auto simp: list_all_iff dest: in_set_takeD)

lemma py_split_truncate:
  "py_split (py_join (cps '' '') (take n (py_split s))) = take n (py_split s)"
  by (simp add: py_split_join list_all_take py_split_tokens)

section \<open>Facts about the document\<close>



section \<open>Facts about scrape_article_text\<close>

text \<open>With a URL that can be written to the log, the function returns a string.\<close>

lemma scrape_article_text_returns:
  "printable url \<Longrightarrow> \<exists>text. scrape_article_text w url = Inr text"
  by (cases "scrape_try w url") (simp_all add: scrape_article_text_def print_value_def)

text \<open>What it returns is empty, or at most \<open>max_words\<close> tokens joined by single spaces.\<close>

lemma scrape_article_text_shape:
  assumes "scrape_article_text w url = Inr t"
  shows "t = [] \<or> (\<exists>text. t = py_join (cps '' '') (take max_words (py_split text)))"
  using assms
  by (auto simp: scrape_article_text_def scrape_try_def print_value_def Let_def
      split: sum.splits if_splits)

lemma scrape_fetch_raises:
  "requests_get w url = Inl e \<Longrightarrow> printable url \<Longrightarrow> scrape_article_text w url = Inr []"
  by (simp add: scrape_article_text_def scrape_try_def print_value_def)

text \<open>
  With a URL that cannot be written to the log, a failed fetch ends in the exception
  that \<open>print\<close> raises inside the \<open>except\<close> clause.
\<close>

lemma scrape_fetch_raises_unprintable:
  "requests_get w url = Inl e \<Longrightarrow> \<not> printable url \<Longrightarrow>
   scrape_article_text w url = Inl UnicodeEncodeError"
  by (simp add: scrape_article_text_def scrape_try_def print_value_def)

lemma scrape_bad_status:
  "requests_get w url = Inr r \<Longrightarrow> 400 \<le> status_code r \<Longrightarrow> status_code r < 600 \<Longrightarrow>
   printable url \<Longrightarrow> scrape_article_text w url = Inr []"
  by (simp add: scrape_article_text_def scrape_try_def raise_for_status_def print_value_def)

lemma scrape_parser_raises:
  "requests_get w url = Inr r \<Longrightarrow> html_parser w (content r) = Inl e \<Longrightarrow>
   printable url \<Longrightarrow> scrape_article_text w url = Inr []"
  by (simp add: scrape_article_text_def scrape_try_def print_value_def split: sum.splits)


lemma example_printable: "printable example_url"
  by (simp add: example_url_def cps_def is_surrogate_def)

lemma example_scrape:
  "scrape_article_text example_world example_url
     = Inr (cps ''Hello world. Second paragraph.'')"
  by (simp add: run_defs example_defs)

section \<open>Facts about the endpoint\<close>

text \<open>
  What the handler answers to a dict with a \<open>url\<close> key whose value can be written to
  the log, in terms of what the scrape returned.
\<close>

lemma summarize_with_url:
  assumes "map_of kvs (cps ''url'') = Some url" and "printable url"
    and "scrape_article_text w url = Inr text"
  shows "summarize key w (Inr (JObj kvs)) =
     (if text = [] then ([], (scrape_error, 400))
      else if key_missing key then ([], (config_error, 500))
      else (case generate_content w model_name_to_use (prompt_for text) of
              Inl e \<Rightarrow> ([(model_name_to_use, prompt_for text)], (internal_error, 500))
            | Inr generated \<Rightarrow>
                ([(model_name_to_use, prompt_for text)],
                 (JObj [(cps ''summary'', JStr generated)], 200))))"
proof -
  from assms(1) have "kvs \<noteq> []" by auto
  with assms show ?thesis
    by (simp add: summarize_def summarize_try_def print_value_def Let_def split: sum.splits)
qed

text \<open>
  When the value cannot be written to the log, the \<open>print\<close> before the scrape raises
  and the answer is the generic 500, whatever the scrape would have done.
\<close>

lemma summarize_unprintable_url:
  assumes "map_of kvs (cps ''url'') = Some url" and "\<not> printable url"
  shows "summarize key w (Inr (JObj kvs)) = ([], (internal_error, 500))"
proof -
  from assms(1) have "kvs \<noteq> []" by auto
  with assms show ?thesis
    by (simp add: summarize_def summarize_try_def print_value_def)
qed

text \<open>
  On a URL that can be written to the log, a fetch that raises or answers with a 4xx
  or 5xx status is answered with status 400 and the scrape-error message.
\<close>

lemma fetch_failure_logged_url_gives_400:
  assumes "map_of kvs (cps ''url'') = Some url" and "printable url"
    and "(\<exists>e. requests_get w url = Inl e) \<or>
         (\<exists>r. requests_get w url = Inr r \<and> 400 \<le> status_code r \<and> status_code r < 600)"
  shows "summarize key w (Inr (JObj kvs)) = ([], (scrape_error, 400))"
proof -
  from assms(2,3) have "scrape_article_text w url = Inr []"
    by (auto intro: scrape_fetch_raises scrape_bad_status)
  with assms(1,2) show ?thesis
    by (simp add: summarize_with_url)
qed

text \<open>
  A body that is \<open>None\<close>, or a dict without the key \<open>url\<close>, is answered with status 400
  and the message for a missing URL.
\<close>

lemma no_url_key_gives_400:
  assumes "data = JNull \<or> (\<exists>kvs. data = JObj kvs \<and> map_of kvs (cps ''url'') = None)"
  shows "summarize key w (Inr data) = ([], (no_url_error, 400))"
  using assms
  by (auto simp: summarize_def summarize_try_def)

section \<open>Where the code and the specification's extraction agree\<close>

text \<open>
  Whitespace at either end of a string, and between two strings joined by a space,
  does not change the tokens.
\<close>

lemma split_ws_all_space:
  "list_all isspace t \<Longrightarrow> split_ws cur t = split_ws cur []"
  by (induction t arbitrary: cur) simp_all

lemma split_ws_trailing_space:
  "list_all isspace t \<Longrightarrow> split_ws cur (s @ t) = split_ws cur s"
proof (induction s arbitrary: cur)
  case Nil
  then show ?case using split_ws_all_space [of t cur] by simp
next
  case (Cons c s)
  then show ?case by simp
qed

lemma split_ws_leading_space:
  "split_ws [] (dropWhile isspace s) = split_ws [] s"
  by (induction s) simp_all

lemma split_ws_space_between:
  "isspace c \<Longrightarrow> split_ws cur (a @ c # b) = split_ws cur a @ split_ws [] b"
  by (induction a arbitrary: cur) simp_all

lemma py_split_strip: "py_split (py_strip s) = py_split s"
proof -
  let ?s = "dropWhile isspace s"
  have "list_all isspace (rev (takeWhile isspace (rev ?s)))"
    by (simp add: list_all_iff) (metis set_takeWhileD)
  then have "split_ws [] (rev (dropWhile isspace (rev ?s)) @ rev (takeWhile isspace (rev ?s)))
      = split_ws [] (rev (dropWhile isspace (rev ?s)))"
    by (rule split_ws_trailing_space)
  moreover have "rev (dropWhile isspace (rev ?s)) @ rev (takeWhile isspace (rev ?s)) = ?s"
    by (metis rev_append rev_rev_ident takeWhile_dropWhile_id)
  ultimately show ?thesis
    by (simp add: py_split_def py_strip_def split_ws_leading_space)
qed

lemma py_split_join_concat:
  "py_split (py_join (cps '' '') xs) = concat (map py_split xs)"
proof -
  have "py_split (py_join [32] xs) = concat (map py_split xs)"
  proof (induction "[32::nat]" xs rule: py_join.induct)
    case (3 x y ys)
    have "split_ws [] (x @ 32 # py_join [32] (y # ys))
        = split_ws [] x @ split_ws [] (py_join [32] (y # ys))"
      by (rule split_ws_space_between) (rule isspace_space)
    with 3 show ?case by (simp add: py_split_def)
  qed (simp_all add: py_split_def)
  then show ?thesis by (simp add: cps_space)
qed

lemma get_text_strip_single:
  assumes "text_nodes (descendants p) = navigable_strings (descendants p)"
    and "length (navigable_strings (descendants p)) \<le> 1"
  shows "py_split (get_text_strip p) = py_split (text_content p)"
proof (cases "navigable_strings (descendants p)")
  case Nil
  with assms(1) show ?thesis
    by (simp add: get_text_strip_def all_strings_strip_def text_content_def)
next
  case (Cons s ss)
  with assms(2) have "ss = []" by simp
  with Cons assms(1) show ?thesis
    using py_split_strip [of s]
    by (auto simp: get_text_strip_def all_strings_strip_def text_content_def py_split_Nil)
qed

lemma spec_extracted_text_eq:
  "spec_extracted_text soup =
     py_join (cps '' '') (take max_words
       (py_split (py_join (cps '' '') (map text_content (find_all (cps ''p'') soup)))))"
  by (simp add: spec_extracted_text_def Let_def max_words_def)

text \<open>
  When every \<open>p\<close> element of the page holds at most one text node, and that one is
  plain text (no inline markup, script or style inside a paragraph),
  \<open>scrape_article_text\<close> returns exactly the extraction the specification words.
\<close>

lemma extraction_agrees_without_inline_markup:
  assumes "requests_get w url = Inr r"
    and "\<not> (400 \<le> status_code r \<and> status_code r < 600)"
    and "html_parser w (content r) = Inr soup"
    and "\<forall>p \<in> set (find_all (cps ''p'') soup).
           text_nodes (descendants p) = navigable_strings (descendants p) \<and>
           length (navigable_strings (descendants p)) \<le> 1"
  shows "scrape_article_text w url = Inr (spec_extracted_text soup)"
proof -
  from assms(4) have "map py_split (map get_text_strip (find_all (cps ''p'') soup))
      = map py_split (map text_content (find_all (cps ''p'') soup))"
    by (simp add: get_text_strip_single)
  then have "py_split (py_join (cps '' '') (map get_text_strip (find_all (cps ''p'') soup)))
      = py_split (py_join (cps '' '') (map text_content (find_all (cps ''p'') soup)))"
    by (simp only: py_split_join_concat)
  with assms(1-3) show ?thesis
    by (auto simp: scrape_article_text_def scrape_try_def raise_for_status_def
        spec_extracted_text_eq Let_def)
qed

section \<open>The claims\<close>

text \<open>
  C1, as the code has it: the credential is looked at only after scraping. With no
  credential configured, a request whose body is a dict with a \<open>url\<close> key, the value
  of which can be written to the log, is answered with status 400 and the scrape-error
  message when the scrape returned the empty string, and with status 500 and the
  configuration-error message otherwise; the model is never called.
\<close>

theorem missing_credential_checked_after_scrape:
  assumes "key_missing key"
    and "map_of kvs (cps ''url'') = Some url"
    and "printable url"
    and "scrape_article_text w url = Inr text"
  shows "summarize key w (Inr (JObj kvs)) =
     ([], if text = []
          then (JObj [(cps ''error'', JStr (cps ''Could not scrape text from URL''))], 400)
          else (JObj [(cps ''error'', JStr (cps ''AI API key not configured on server''))],
                500))"
  using assms
  by (simp add: summarize_with_url scrape_error_def config_error_def)

theorem missing_credential_checked_after_scrape_witness:
  "key_missing None \<and>
   map_of [(cps ''url'', example_url)] (cps ''url'') = Some example_url \<and>
   printable example_url \<and>
   scrape_article_text example_world example_url
     = Inr (cps ''Hello world. Second paragraph.'') \<and>
   summarize None example_world example_request =
     ([], (JObj [(cps ''error'', JStr (cps ''AI API key not configured on server''))], 500))"
proof -
  have h1: "key_missing None" by simp
  have h2: "map_of [(cps ''url'', example_url)] (cps ''url'') = Some example_url" by simp
  note h3 = example_printable
  note h4 = example_scrape
  have ne: "cps ''Hello world. Second paragraph.'' \<noteq> []" by (simp add: cps_def)
  from missing_credential_checked_after_scrape [OF h1 h2 h3 h4] h1 h2 h3 h4 ne
  show ?thesis by (simp add: example_request_def)
qed

text \<open>
  C1 as stated fails: with no credential configured and a fetch that fails, the
  well-formed request of the example is answered with status 400 and the scrape-error
  message, not with the configuration error.
\<close>

theorem missing_credential_counterexample:
  "snd (summarize None offline_world example_request) =
     (JObj [(cps ''error'', JStr (cps ''Could not scrape text from URL''))], 400) \<and>
   snd (summarize None offline_world example_request) \<noteq>
     (JObj [(cps ''error'', JStr (cps ''AI API key not configured on server''))], 500)"
  by (simp add: run_defs example_defs)

text \<open>
  C2, at a body that cannot be parsed as JSON: \<open>request.get_json()\<close> raises
  \<open>BadRequest\<close> inside the \<open>try\<close> block, the \<open>except Exception\<close> clause catches it, and
  the answer is status 500 with the generic message, not 400.
\<close>

theorem malformed_body_gives_500:
  "summarize key w (Inl BadRequest) =
     ([], (JObj [(cps ''error'', JStr (cps ''An internal server error occurred''))], 500))"
  by (simp add: summarize_def summarize_try_def internal_error_def)

text \<open>
  C3, at the page \<^verbatim>\<open><p>Hello <b>world</b></p>\<close>: the text content of the paragraph is
  \<open>Hello world\<close>, two tokens, and the extraction the specification words returns it;
  \<open>get_text(strip=True)\<close> strips each text node and joins them with nothing between,
  so the code returns the single token \<open>Helloworld\<close>.
\<close>

theorem inline_markup_glues_words:
  "scrape_article_text inline_world example_url = Inr (cps ''Helloworld'') \<and>
   spec_extracted_text inline_soup = cps ''Hello world''"
  by (simp add: run_defs example_defs)

text \<open>
  C4, at the request \<^verbatim>\<open>{"url": "\ud800"}\<close>: the fetch of that URL raises, so the claim
  promises status 400 with the scrape-error message. The handler never gets that far:
  the \<open>print\<close> that logs the URL before the scrape raises \<open>UnicodeEncodeError\<close> inside
  the \<open>try\<close> block, and the answer is status 500 with the generic message.
\<close>

theorem fetch_failure_unlogged_url_gives_500:
  "requests_get offline_world surrogate_url = Inl RequestException \<and>
   summarize key offline_world surrogate_request =
     ([], (JObj [(cps ''error'', JStr (cps ''An internal server error occurred''))], 500))"
  by (simp add: run_defs example_defs)

text \<open>
  C5, at bodies without a \<open>url\<close> field for which the claim promises status 400 and the
  message for a missing URL: a body on which \<open>request.get_json()\<close> raises (an absent or
  empty body among them), the number \<open>5\<close>, the string \<open>my url\<close> and the list \<open>["url"]\<close>.
  Each ends in an exception inside the \<open>try\<close> block (the one \<open>get_json\<close> raised, or
  the \<open>TypeError\<close> of \<open>in\<close> or of the subscript), and the answer is status 500 with
  the generic message.
\<close>

theorem body_without_url_field_gives_500:
  "summarize key w (Inl e) =
     ([], (JObj [(cps ''error'', JStr (cps ''An internal server error occurred''))], 500)) \<and>
   summarize key w (Inr (JNum 5)) =
     ([], (JObj [(cps ''error'', JStr (cps ''An internal server error occurred''))], 500)) \<and>
   summarize key w (Inr (JStr (cps ''my url''))) =
     ([], (JObj [(cps ''error'', JStr (cps ''An internal server error occurred''))], 500)) \<and>
   summarize key w (Inr (JArr [JStr (cps ''url'')])) =
     ([], (JObj [(cps ''error'', JStr (cps ''An internal server error occurred''))], 500))"
  by (simp add: summarize_def summarize_try_def internal_error_def cps_def)



text \<open>
  C7: when the body is a dict with a \<open>url\<close> key whose value was logged, the scrape
  returned a non-empty text and a credential is configured, the model
  \<open>models/gemini-pro-latest\<close> is called once, with the fixed sentence, two line feeds
  and the scraped text as the prompt; when that call returns a text, the answer is
  status 200 with that text, unchanged, under the key \<open>summary\<close> (and the generic 500
  when the call raises).
\<close>

theorem success_path_prompt_and_summary:
  assumes "map_of kvs (cps ''url'') = Some url"
    and "printable url"
    and "scrape_article_text w url = Inr text"
    and "text \<noteq> []"
    and "\<not> key_missing key"
  shows "summarize key w (Inr (JObj kvs)) =
     (let prompt = cps ''Summarize the following article text in 3 concise bullet points:''
                     @ [10, 10] @ text
      in ([(cps ''models/gemini-pro-latest'', prompt)],
          (case generate_content w (cps ''models/gemini-pro-latest'') prompt of
             Inr generated \<Rightarrow> (JObj [(cps ''summary'', JStr generated)], 200)
           | Inl e \<Rightarrow>
               (JObj [(cps ''error'', JStr (cps ''An internal server error occurred''))],
                500))))"
  using assms
  by (simp add: summarize_with_url prompt_for_def model_name_to_use_def internal_error_def
      split: sum.splits)

theorem success_path_prompt_and_summary_witness:
  "map_of [(cps ''url'', example_url)] (cps ''url'') = Some example_url \<and>
   printable example_url \<and>
   scrape_article_text example_world example_url
     = Inr (cps ''Hello world. Second paragraph.'') \<and>
   \<not> key_missing (Some (cps ''secret'')) \<and>
   summarize (Some (cps ''secret'')) example_world example_request =
     ([(cps ''models/gemini-pro-latest'',
        cps ''Summarize the following article text in 3 concise bullet points:''
          @ [10, 10] @ cps ''Hello world. Second paragraph.'')],
      (JObj [(cps ''summary'', JStr (cps ''* a summary''))], 200))"
proof -
  have h1: "map_of [(cps ''url'', example_url)] (cps ''url'') = Some example_url" by simp
  note h2 = example_printable
  note h3 = example_scrape
  have h4: "cps ''Hello world. Second paragraph.'' \<noteq> []" by (simp add: cps_def)
  have h5: "\<not> key_missing (Some (cps ''secret''))" by (simp add: cps_def)
  have g: "generate_content example_world name prompt = Inr (cps ''* a summary'')"
    for name prompt
    by (simp add: example_world_def)
  from success_path_prompt_and_summary [OF h1 h2 h3 h4 h5] h1 h2 h3 h5
  show ?thesis by (simp add: example_request_def g)
qed

text \<open>
  C8: whatever the URL and whatever the outside answers, every text
  \<open>scrape_article_text\<close> returns has at most 1500 whitespace-delimited words; and it
  does return a text whenever the URL can be written to the log.
\<close>

theorem article_text_word_bound:
  "(\<forall>text. scrape_article_text w url = Inr text \<longrightarrow> length (py_split text) \<le> 1500) \<and>
   (printable url \<longrightarrow> (\<exists>text. scrape_article_text w url = Inr text))"
proof -
  have "length (py_split t) \<le> 1500" if "scrape_article_text w url = Inr t" for t
    using scrape_article_text_shape [OF that]
    by (auto simp: py_split_truncate py_split_Nil max_words_def)
  then show ?thesis
    using scrape_article_text_returns [of url w] by blast
qed

theorem article_text_word_bound_witness:
  "printable example_url \<and>
   scrape_article_text example_world example_url
     = Inr (cps ''Hello world. Second paragraph.'') \<and>
   length (py_split (cps ''Hello world. Second paragraph.'')) \<le> 1500"
proof -
  note h1 = example_printable
  note h2 = example_scrape
  from article_text_word_bound [of example_world example_url] h2
  have "length (py_split (cps ''Hello world. Second paragraph.'')) \<le> 1500" by blast
  with h1 h2 show ?thesis by simp
qed

text \<open>
  C9, at the URL \<^verbatim>\<open>"\ud800"\<close>: the fetch raises, the \<open>except\<close> clause prints the URL
  before it returns, that \<open>print\<close> raises \<open>UnicodeEncodeError\<close>, and the exception
  leaves \<open>scrape_article_text\<close> instead of the empty string the claim promises.
\<close>

theorem scrape_raises_on_unlogged_url:
  "requests_get offline_world surrogate_url = Inl RequestException \<and>
   scrape_article_text offline_world surrogate_url = Inl UnicodeEncodeError"
  by (simp add: run_defs example_defs)

text \<open>
  C10: a dict whose \<open>url\<close> key holds the empty string passes the validation (the answer
  is not the one for a missing URL); the handler goes on to scrape, and the fetch of the
  empty URL raising, the answer is status 400 with the scrape-error message.
\<close>

theorem empty_url_passes_validation:
  assumes "map_of kvs (cps ''url'') = Some (JStr [])"
    and "requests_get w (JStr []) = Inl e"
  shows "summarize key w (Inr (JObj kvs)) =
       ([], (JObj [(cps ''error'', JStr (cps ''Could not scrape text from URL''))], 400)) \<and>
     snd (summarize key w (Inr (JObj kvs))) \<noteq>
       (JObj [(cps ''error'', JStr (cps ''No URL provided''))], 400)"
proof -
  have p: "printable (JStr [])" by simp
  from assms(2) p have "scrape_article_text w (JStr []) = Inr []"
    by (rule scrape_fetch_raises)
  with assms(1) p show ?thesis
    by (simp add: summarize_with_url scrape_error_def cps_def)
qed

theorem empty_url_passes_validation_witness:
  "map_of [(cps ''url'', JStr [])] (cps ''url'') = Some (JStr []) \<and>
   requests_get offline_world (JStr []) = Inl RequestException \<and>
   summarize None offline_world (Inr (JObj [(cps ''url'', JStr [])])) =
     ([], (JObj [(cps ''error'', JStr (cps ''Could not scrape text from URL''))], 400))"
proof -
  have h1: "map_of [(cps ''url'', JStr [])] (cps ''url'') = Some (JStr [])" by simp
  have h2: "requests_get offline_world (JStr []) = Inl RequestException"
    by (simp add: example_defs)
  from empty_url_passes_validation [OF h1 h2, of None] h1 h2
  show ?thesis by simp
qed

end
